theory Spec2Isabelle
  imports Complex_Main "HOL-Library.Word"
begin

section \<open>JavaScript numbers\<close>

text \<open>
  The analyzer computes with JavaScript numbers. Rounding error of the binary
  floating-point format is not modelled: a finite number is a real. What is modelled is
  the part of the number domain the code can reach and that changes control flow: the
  two infinities and NaN, which arise from a division by zero, from a read past the end
  of an array (\<open>undefined\<close> behaves as NaN in arithmetic and makes every comparison
  false) and from \<open>Infinity * 0\<close>. The sign of zero is not modelled; a zero divisor
  counts as \<open>+0\<close>, which is what the divisors of the source are when they are zero
  (a length, a pixel size, a difference of two equal logarithms).
\<close>

datatype jsnum = NaN | NegInf | Fin real | PosInf

fun js_neg :: "jsnum \<Rightarrow> jsnum" where
  "js_neg NaN = NaN"
| "js_neg NegInf = PosInf"
| "js_neg (Fin a) = Fin (- a)"
| "js_neg PosInf = NegInf"

fun js_add :: "jsnum \<Rightarrow> jsnum \<Rightarrow> jsnum" where
  "js_add (Fin a) (Fin b) = Fin (a + b)"
| "js_add NaN _ = NaN"
| "js_add _ NaN = NaN"
| "js_add PosInf NegInf = NaN"
| "js_add NegInf PosInf = NaN"
| "js_add PosInf _ = PosInf"
| "js_add _ PosInf = PosInf"
| "js_add NegInf _ = NegInf"
| "js_add _ NegInf = NegInf"

definition js_sub :: "jsnum \<Rightarrow> jsnum \<Rightarrow> jsnum" where
  "js_sub a b = js_add a (js_neg b)"

fun js_mul :: "jsnum \<Rightarrow> jsnum \<Rightarrow> jsnum" where
  "js_mul (Fin a) (Fin b) = Fin (a * b)"
| "js_mul NaN _ = NaN"
| "js_mul _ NaN = NaN"
| "js_mul (Fin a) PosInf = (if a = 0 then NaN else if 0 < a then PosInf else NegInf)"
| "js_mul (Fin a) NegInf = (if a = 0 then NaN else if 0 < a then NegInf else PosInf)"
| "js_mul PosInf (Fin b) = (if b = 0 then NaN else if 0 < b then PosInf else NegInf)"
| "js_mul NegInf (Fin b) = (if b = 0 then NaN else if 0 < b then NegInf else PosInf)"
| "js_mul PosInf PosInf = PosInf"
| "js_mul NegInf NegInf = PosInf"
| "js_mul PosInf NegInf = NegInf"
| "js_mul NegInf PosInf = NegInf"

fun js_div :: "jsnum \<Rightarrow> jsnum \<Rightarrow> jsnum" where
  "js_div (Fin a) (Fin b) =
     (if b = 0 then (if a = 0 then NaN else if 0 < a then PosInf else NegInf)
      else Fin (a / b))"
| "js_div NaN _ = NaN"
| "js_div _ NaN = NaN"
| "js_div (Fin a) PosInf = Fin 0"
| "js_div (Fin a) NegInf = Fin 0"
| "js_div PosInf (Fin b) = (if 0 \<le> b then PosInf else NegInf)"
| "js_div NegInf (Fin b) = (if 0 \<le> b then NegInf else PosInf)"
| "js_div _ _ = NaN"

text \<open>Comparisons: every comparison with NaN is false.\<close>

fun js_lt :: "jsnum \<Rightarrow> jsnum \<Rightarrow> bool" where
  "js_lt (Fin a) (Fin b) = (a < b)"
| "js_lt NaN _ = False"
| "js_lt _ NaN = False"
| "js_lt _ NegInf = False"
| "js_lt NegInf _ = True"
| "js_lt PosInf _ = False"
| "js_lt _ PosInf = True"

fun js_le :: "jsnum \<Rightarrow> jsnum \<Rightarrow> bool" where
  "js_le (Fin a) (Fin b) = (a \<le> b)"
| "js_le NaN _ = False"
| "js_le _ NaN = False"
| "js_le NegInf _ = True"
| "js_le _ PosInf = True"
| "js_le _ NegInf = False"
| "js_le PosInf _ = False"

definition js_gt :: "jsnum \<Rightarrow> jsnum \<Rightarrow> bool" where
  "js_gt a b = js_lt b a"

definition js_ge :: "jsnum \<Rightarrow> jsnum \<Rightarrow> bool" where
  "js_ge a b = js_le b a"

text \<open>\<open>Math.max\<close> and \<open>Math.min\<close> of two numbers: NaN when either is NaN.\<close>

fun js_max :: "jsnum \<Rightarrow> jsnum \<Rightarrow> jsnum" where
  "js_max NaN _ = NaN"
| "js_max _ NaN = NaN"
| "js_max a b = (if js_lt a b then b else a)"

fun js_min :: "jsnum \<Rightarrow> jsnum \<Rightarrow> jsnum" where
  "js_min NaN _ = NaN"
| "js_min _ NaN = NaN"
| "js_min a b = (if js_lt b a then b else a)"

text \<open>\<open>Math.round\<close> rounds half up: \<open>Math.round(x) = floor(x + 0.5)\<close>.\<close>

fun js_round :: "jsnum \<Rightarrow> jsnum" where
  "js_round (Fin a) = Fin (of_int \<lfloor>a + 1 / 2\<rfloor>)"
| "js_round x = x"

text \<open>\<open>Math.log10\<close> of a finite number.\<close>

definition js_log10 :: "real \<Rightarrow> jsnum" where
  "js_log10 x = (if 0 < x then Fin (log 10 x) else if x = 0 then NegInf else NaN)"

text \<open>
  \<open>x | 0\<close> and the left operand of \<open>>>\<close>: truncation toward zero, then wrap-around
  to a signed 32-bit integer.
\<close>

definition toInt32 :: "real \<Rightarrow> int" where
  "toInt32 x =
     (let t = (if 0 \<le> x then \<lfloor>x\<rfloor> else \<lceil>x\<rceil>);
          m = t mod 2 ^ 32
      in if 2 ^ 31 \<le> m then m - 2 ^ 32 else m)"

fun js_toInt32 :: "jsnum \<Rightarrow> int" where
  "js_toInt32 (Fin a) = toInt32 a"
| "js_toInt32 _ = 0"

text \<open>
  Arrays of numbers indexed by channel (\<open>peak\<close>, \<open>hold\<close>, \<open>value\<close> of a bar). A read
  past the end is \<open>undefined\<close>, which every use in the source treats as NaN; a write past
  the end extends the array.
\<close>

definition arrayGet :: "jsnum list \<Rightarrow> nat \<Rightarrow> jsnum" where
  "arrayGet xs i = (if i < length xs then xs ! i else NaN)"

definition arraySet :: "jsnum list \<Rightarrow> nat \<Rightarrow> jsnum \<Rightarrow> jsnum list" where
  "arraySet xs i v =
     (if i < length xs then xs[i := v] else xs @ replicate (i - length xs) NaN @ [v])"

section \<open>Data model\<close>

datatype error = ERR_FREQUENCY_TOO_LOW | ERR_INVALID_MODE | TypeError

datatype rounding = Floor | Round | Ceil

text \<open>One entry of the tempered scale built in \<open>_calcBars\<close>.\<close>

record scaleEntry =
  freq :: real
  bin :: int
  ratio :: jsnum

text \<open>One analyzer bar, as \<open>barsPush\<close> creates it.\<close>

record bar =
  posX :: jsnum
  binLo :: int
  binHi :: int
  freqLo :: real
  freqHi :: real
  ratioLo :: jsnum
  ratioHi :: jsnum
  peak :: "jsnum list"
  hold :: "jsnum list"
  barValue :: "jsnum list"

text \<open>The object \<open>_energy\<close>: \<open>{ val, peak, hold }\<close>.\<close>

record energyState =
  energyVal :: jsnum
  energyPeak :: jsnum
  energyHold :: int

text \<open>The array \<open>_leds\<close>: \<open>[ledCount, spaceH, spaceV, ledHeight]\<close>.\<close>

record ledConfig =
  ledCount :: jsnum
  spaceH :: jsnum
  spaceV :: jsnum
  ledHeight :: jsnum

text \<open>
  The fields of the analyzer object that the frequency mapping, the LED geometry and the
  energy tracker read or write. \<open>fftSize\<close> and \<open>sampleRate\<close> belong to the audio nodes;
  the platform keeps \<open>fftSize\<close> a power of two from 32 to 32768, \<open>sampleRate\<close> positive and
  \<open>frequencyBinCount\<close> half of \<open>fftSize\<close>. \<open>devicePixelRatio\<close> and \<open>screenHeight\<close> are
  read from \<open>window\<close>. The two byte arrays of \<open>_fftData\<close> are a pair.
\<close>

record analyzer =
  ready :: bool
  mode :: int
  minFreq :: real
  maxFreq :: real
  fftSize :: nat
  sampleRate :: real
  stereo :: bool
  radial :: bool
  mirror :: int
  showLeds :: bool
  lumiBars :: bool
  reflexRatio :: real
  canvasWidth :: int
  canvasHeight :: int
  pixelRatio :: real
  devicePixelRatio :: real
  screenHeight :: real
  ledParams :: "(int \<times> real \<times> real) option"
  radius :: int
  isOctaveBands :: bool
  isLedDisplay :: bool
  isLumiBars :: bool
  maximizeLeds :: bool
  channelHeight :: int
  analyzerHeight :: int
  analyzerWidth :: int
  initialX :: int
  barWidth :: jsnum
  bars :: "bar list"
  minLog :: jsnum
  logWidth :: jsnum
  leds :: "ledConfig option"
  energy :: energyState
  fftData :: "8 word list \<times> 8 word list"

definition frequencyBinCount :: "analyzer \<Rightarrow> int" where
  "frequencyBinCount st = int (fftSize st div 2)"

section \<open>Auxiliary values: \<open>_calcAux\<close>\<close>

text \<open>
  The flags and sizes \<open>_calcAux\<close> derives. The values it computes only for drawing
  (\<open>_barSpacePx\<close>, \<open>_isAlphaBars\<close>, \<open>_isOutline\<close>, \<open>_channelGap\<close>) are left out.
  The products \<open>channelHeight * (1 - reflexRatio)\<close> and \<open>min(width, height) * .375\<close> are
  exact here, while the source rounds each operation to a double before it truncates:
  where the exact product is an integer, or just above one, the source can be one lower
  (a reflex ratio of 0.3 on a height of 360 gives 251 there and 252 here). The two agree
  when the reflex ratio is 0, which is the only value the statements below use.
\<close>

definition calcAux :: "analyzer \<Rightarrow> analyzer" where
  "calcAux st =
     (let isRadial = radial st;
          isDual = (stereo st \<and> \<not> isRadial);
          centerX = canvasWidth st div 2;
          oct = (mode st mod 10 \<noteq> 0);
          led = (showLeds st \<and> oct \<and> \<not> isRadial);
          lumi = (lumiBars st \<and> oct \<and> \<not> isRadial);
          ch = toInt32 (real_of_int (canvasHeight st) - (if isDual \<and> \<not> led then 1 / 2 else 0))
                 div (if isDual then 2 else 1);
          ah = toInt32 (real_of_int ch * (if lumi \<or> isRadial then 1 else 1 - reflexRatio st))
      in st\<lparr> radius := toInt32 (real_of_int (min (canvasWidth st) (canvasHeight st))
                                    * (if stereo st then 375 / 1000 else 125 / 1000)),
              isOctaveBands := oct,
              isLedDisplay := led,
              isLumiBars := lumi,
              maximizeLeds := (\<not> stereo st \<or> (0 < reflexRatio st \<and> \<not> lumi)),
              channelHeight := ch,
              analyzerHeight := ah,
              analyzerWidth := canvasWidth st - centerX * (if mirror st \<noteq> 0 then 1 else 0),
              initialX := centerX * (if mirror st = - 1 \<and> \<not> isRadial then 1 else 0) \<rparr>)"

section \<open>Frequencies and bins\<close>

text \<open>\<open>binToFreq\<close>: \<open>bin * sampleRate / fftSize || 1\<close>, which is 1 for bin 0.\<close>

definition binToFreq :: "analyzer \<Rightarrow> int \<Rightarrow> real" where
  "binToFreq st b =
     (let f = real_of_int b * sampleRate st / real (fftSize st) in if f = 0 then 1 else f)"

fun mathRounding :: "rounding \<Rightarrow> real \<Rightarrow> int" where
  "mathRounding Floor x = \<lfloor>x\<rfloor>"
| "mathRounding Round x = \<lfloor>x + 1 / 2\<rfloor>"
| "mathRounding Ceil x = \<lceil>x\<rceil>"

text \<open>\<open>_freqToBin\<close>: the rounded bin, capped at \<open>frequencyBinCount - 1\<close>.\<close>

definition freqToBin :: "analyzer \<Rightarrow> real \<Rightarrow> rounding \<Rightarrow> int" where
  "freqToBin st f r =
     (let mx = frequencyBinCount st - 1;
          b = mathRounding r (f * real (fftSize st) / sampleRate st)
      in if b < mx then b else mx)"

definition ROOT24 :: real where
  "ROOT24 = 2 powr (1 / 24)"

definition C0 :: real where
  "C0 = 440 * ROOT24 powr (- 114)"

text \<open>The body of the two nested loops that fill \<open>temperedScale\<close>.\<close>

definition scaleEntryAt :: "analyzer \<Rightarrow> nat \<Rightarrow> nat \<Rightarrow> scaleEntry" where
  "scaleEntryAt st octave note =
     (let f = C0 * ROOT24 powr real (octave * 24 + note);
          b = freqToBin st f Floor;
          binFreq = binToFreq st b;
          nextFreq = binToFreq st (b + 1)
      in \<lparr> freq = f, bin = b, ratio = js_div (Fin (f - binFreq)) (Fin (nextFreq - binFreq)) \<rparr>)"

definition temperedScale :: "analyzer \<Rightarrow> scaleEntry list" where
  "temperedScale st =
     concat (map (\<lambda>octave. map (\<lambda>note. scaleEntryAt st octave note) [0..<24]) [0..<11])"

text \<open>The table \<open>[0, 1, 2, 3, 4, 6, 8, 12, 24][mode]\<close>; \<open>None\<close> is \<open>undefined\<close>.\<close>

definition steps :: "int \<Rightarrow> nat option" where
  "steps m = (if 0 \<le> m \<and> m < 9 then Some ([0, 1, 2, 3, 4, 6, 8, 12, 24] ! nat m) else None)"

section \<open>Bar geometry: \<open>_calcBars\<close>\<close>

definition barsPush ::
  "bar list \<Rightarrow> jsnum \<Rightarrow> int \<Rightarrow> int \<Rightarrow> real \<Rightarrow> real \<Rightarrow> jsnum \<Rightarrow> jsnum \<Rightarrow> bar list" where
  "barsPush bs px bl bh fl fh rl rh =
     bs @ [\<lparr> posX = px, binLo = bl, binHi = bh, freqLo = fl, freqHi = fh,
             ratioLo = rl, ratioHi = rh,
             peak = [Fin 0, Fin 0], hold = [Fin 0], barValue = [Fin 0] \<rparr>]"

text \<open>
  The branch taken when the band's ending frequency is out of range, for a non-empty
  list: the last bar takes one more bin.
\<close>

definition closeLastBar :: "analyzer \<Rightarrow> bar list \<Rightarrow> bar list" where
  "closeLastBar st bs =
     (let p = last bs; h = binHi p + 1
      in butlast bs @ [p\<lparr> binHi := h, ratioHi := Fin 0, freqHi := binToFreq st h \<rparr>])"

text \<open>
  The branch \<open>diff > 1\<close>: the update of the previous bar. \<open>bl\<close> is the band's \<open>binLo\<close>
  before it is moved; \<open>diff >> 1\<close> is \<open>diff div 2\<close>.
\<close>

definition redistribute :: "analyzer \<Rightarrow> bar list \<Rightarrow> int \<Rightarrow> bar list" where
  "redistribute st bs bl =
     (let p = last bs;
          d = bl - binHi p;
          p1 = p\<lparr> binHi := bl - d div 2, ratioHi := Fin 0, freqHi := binToFreq st (bl - d div 2) \<rparr>;
          p2 = (if 1 < length bs \<and> binLo p1 < binHi p1 \<and> binHi (bs ! (length bs - 2)) < binLo p1
                then p1\<lparr> ratioLo := Fin 0, freqLo := binToFreq st (binLo p1) \<rparr>
                else p1)
      in butlast bs @ [p2])"

text \<open>The branch \<open>freqLo >= minFreq\<close>: one band becomes one bar.\<close>

definition emitBand :: "analyzer \<Rightarrow> bar list \<Rightarrow> scaleEntry \<Rightarrow> scaleEntry \<Rightarrow> bar list" where
  "emitBand st bs lo hi =
     (if bs \<noteq> [] then
        (let d = bin lo - binHi (last bs);
             bs1 = (if 1 < d then redistribute st bs (bin lo) else bs);
             bl = (if 1 < d then binHi (last bs1) + 1 else bin lo);
             plain = (bl < bin hi \<and> binHi (last bs1) < bl)
         in barsPush bs1 (Fin 0) bl (bin hi)
              (if plain then binToFreq st bl else freq lo) (freq hi)
              (if plain then Fin 0 else ratio lo) (ratio hi))
      else barsPush bs (Fin 0) (bin lo) (bin hi) (freq lo) (freq hi) (ratio lo) (ratio hi))"

text \<open>
  The loop over the bands, \<open>k\<close> entries each, from entry \<open>index\<close>. It returns the error
  thrown, if any, and the bars pushed so far. Destructuring an entry that does not exist
  throws a TypeError, and so does \<open>prevBar.binHi++\<close> when no bar exists. With \<open>k = 0\<close>
  the first iteration reads entry \<open>-1\<close> and throws.
\<close>

function octaveLoop ::
  "analyzer \<Rightarrow> scaleEntry list \<Rightarrow> nat \<Rightarrow> nat \<Rightarrow> bar list \<Rightarrow> error option \<times> bar list" where
  "octaveLoop st scale k index bs =
     (if index < length scale then
        (if k = 0 \<or> length scale \<le> index + k - 1 then (Some TypeError, bs)
         else if maxFreq st < freq (scale ! (index + k - 1))
                 \<or> real (fftSize st) / 2 \<le> real_of_int (bin (scale ! (index + k - 1))) then
           (if bs = [] then (Some TypeError, bs) else (None, closeLastBar st bs))
         else if minFreq st \<le> freq (scale ! index) then
           octaveLoop st scale k (index + k)
             (emitBand st bs (scale ! index) (scale ! (index + k - 1)))
         else octaveLoop st scale k (index + k) bs)
      else (None, bs))"
  by pat_completeness auto
termination
  by (relation "measure (\<lambda>(st, scale, k, index, bs). length scale - index)") auto

declare octaveLoop.simps [simp del]

text \<open>\<open>bars.forEach((bar, index) => bar.posX = initialX + index * this._barWidth)\<close>\<close>

definition setPosX :: "analyzer \<Rightarrow> jsnum \<Rightarrow> bar list \<Rightarrow> bar list" where
  "setPosX st bw bs =
     map (\<lambda>i. (bs ! i)\<lparr> posX := js_add (Fin (real_of_int (initialX st))) (js_mul (Fin (real i)) bw) \<rparr>)
       [0..<length bs]"

text \<open>The position of bin \<open>i\<close> in the discrete frequencies branch.\<close>

definition binPos :: "analyzer \<Rightarrow> jsnum \<Rightarrow> jsnum \<Rightarrow> int \<Rightarrow> jsnum" where
  "binPos st lw ml i =
     js_add (Fin (real_of_int (initialX st)))
       (js_round (js_mul lw (js_sub (js_log10 (binToFreq st i)) ml)))"

text \<open>The loop of the discrete frequencies branch, from bin \<open>i\<close> to bin \<open>mx\<close>.\<close>

function discreteLoop ::
  "analyzer \<Rightarrow> jsnum \<Rightarrow> jsnum \<Rightarrow> int \<Rightarrow> int \<Rightarrow> jsnum \<Rightarrow> bar list \<Rightarrow> bar list" where
  "discreteLoop st lw ml i mx lastPos bs =
     (if i \<le> mx then
        (if js_gt (binPos st lw ml i) lastPos then
           discreteLoop st lw ml (i + 1) mx (binPos st lw ml i)
             (barsPush bs (binPos st lw ml i) i i (binToFreq st i) (binToFreq st i) (Fin 0) (Fin 0))
         else if bs \<noteq> [] then
           discreteLoop st lw ml (i + 1) mx lastPos
             (butlast bs @ [(last bs)\<lparr> binHi := i, freqHi := binToFreq st i \<rparr>])
         else discreteLoop st lw ml (i + 1) mx lastPos bs)
      else bs)"
  by pat_completeness auto
termination
  by (relation "measure (\<lambda>(st, lw, ml, i, mx, lastPos, bs). nat (mx + 1 - i))") auto

declare discreteLoop.simps [simp del]

section \<open>LED geometry: \<open>_calcLeds\<close>\<close>

text \<open>
  The table \<open>params\<close>. The outer \<open>None\<close> is \<open>undefined\<close> (no such row); the inner \<open>None\<close>
  is the empty row of mode 0, whose three values are \<open>undefined\<close>.
\<close>

definition ledTable :: "int \<Rightarrow> (int \<times> real \<times> real) option option" where
  "ledTable m =
     (if m = 0 then Some None
      else if 1 \<le> m \<and> m \<le> 8 then
        Some (Some ([(128, 3, 45 / 100), (128, 4, 225 / 1000), (96, 6, 225 / 1000),
                     (80, 6, 225 / 1000), (80, 6, 125 / 1000), (64, 6, 125 / 1000),
                     (48, 8, 125 / 1000), (24, 16, 125 / 1000)] ! nat (m - 1)))
      else None)"

text \<open>\<open>dPR\<close>: the pixel ratio, halved on low-resolution screens with a high ratio.\<close>

definition dPR :: "analyzer \<Rightarrow> real" where
  "dPR st = pixelRatio st / (if 1 < devicePixelRatio st \<and> screenHeight st \<le> 540 then 2 else 1)"

text \<open>
  The \<open>do ... while\<close> loop of the custom parameters: \<open>c\<close> is \<open>ledCount\<close> before the
  decrement; the result is \<open>ledCount\<close> and \<open>spaceV\<close> at the exit.
\<close>

function ledLoop :: "real \<Rightarrow> real \<Rightarrow> real \<Rightarrow> int \<Rightarrow> int \<times> real" where
  "ledLoop h r minHeight c =
     (if (h / real_of_int (c - 1) / (1 + r) < minHeight
            \<or> h / real_of_int (c - 1) / (1 + r) * r < minHeight) \<and> 1 < c - 1
      then ledLoop h r minHeight (c - 1)
      else (c - 1, h / real_of_int (c - 1) / (1 + r) * r))"
  by pat_completeness auto
termination
  by (relation "measure (\<lambda>(h, r, minHeight, c). nat c)") auto

declare ledLoop.simps [simp del]

text \<open>
  The default parameters (no custom ones): \<open>spaceV\<close>, the adjusted analyzer height and
  \<open>ledCount\<close>, for a row \<open>(maxLeds, spaceVRatio, spaceHRatio)\<close> of the table.
\<close>

definition defaultSpaceV :: "real \<Rightarrow> int \<Rightarrow> real \<Rightarrow> real" where
  "defaultSpaceV d h spaceVRatio =
     min (spaceVRatio * d)
       (max 2 (real_of_int (toInt32 (real_of_int h / (540 / spaceVRatio) + 1 / 10))))"

text \<open>
  The array \<open>_leds\<close>. The quotient of \<open>ledHeight\<close> is exact here and rounded to a double in
  the source; \<open>ledCount\<close> and \<open>spaceV\<close> are what the statements below are about.
\<close>

definition ledsOf ::
  "jsnum \<Rightarrow> real \<Rightarrow> int \<Rightarrow> real \<Rightarrow> real \<Rightarrow> ledConfig" where
  "ledsOf bw h' c sv spaceHRatio =
     \<lparr> ledCount = Fin (real_of_int c),
       spaceH = (if 1 \<le> spaceHRatio then Fin spaceHRatio else js_mul bw (Fin spaceHRatio)),
       spaceV = Fin sv,
       ledHeight = js_sub (js_div (Fin h') (Fin (real_of_int c))) (Fin sv) \<rparr>"

definition calcLeds :: "analyzer \<Rightarrow> error option \<times> analyzer" where
  "calcLeds st =
     (if \<not> isOctaveBands st \<or> \<not> ready st then (None, st)
      else case ledParams st of
        Some (maxLeds, spaceVRatio, spaceHRatio) \<Rightarrow>
          (let (c, sv) = ledLoop (real_of_int (analyzerHeight st)) spaceVRatio (2 * dPR st) (maxLeds + 1);
               h' = real_of_int (analyzerHeight st) + (if maximizeLeds st then sv else 0)
           in (None, st\<lparr> leds := Some (ledsOf (barWidth st) h' c sv spaceHRatio) \<rparr>))
      | None \<Rightarrow>
          (case ledTable (mode st) of
             None \<Rightarrow> (Some TypeError, st)
           | Some None \<Rightarrow>
               (None, st\<lparr> leds := Some \<lparr> ledCount = NaN, spaceH = NaN, spaceV = NaN, ledHeight = NaN \<rparr> \<rparr>)
           | Some (Some (maxLeds, spaceVRatio, spaceHRatio)) \<Rightarrow>
               (let sv = defaultSpaceV (dPR st) (analyzerHeight st) spaceVRatio;
                    h' = real_of_int (analyzerHeight st) + (if maximizeLeds st then sv else 0);
                    c = min maxLeds (toInt32 (h' / (sv * 2)))
                in (None, st\<lparr> leds := Some (ledsOf (barWidth st) h' c sv spaceHRatio) \<rparr>))))"

section \<open>The rebuild\<close>

text \<open>
  What \<open>_calcBars\<close> does after the bars are built: it saves \<open>minLog\<close> and \<open>logWidth\<close>,
  then calls \<open>_calcAux\<close>, \<open>_createScales\<close> (drawing only, left out) and \<open>_calcLeds\<close>.
\<close>

definition finishBars :: "analyzer \<Rightarrow> jsnum \<Rightarrow> jsnum \<Rightarrow> error option \<times> analyzer" where
  "finishBars st ml lw = calcLeds (calcAux (st\<lparr> minLog := ml, logWidth := lw \<rparr>))"

text \<open>
  \<open>_calcBars\<close>. The result is the error thrown, if any, and the analyzer as the call
  leaves it: \<open>_bars\<close> is emptied first, and an exception leaves what was written before it.
\<close>

definition octaveBars :: "analyzer \<Rightarrow> nat \<Rightarrow> error option \<times> bar list" where
  "octaveBars st k = octaveLoop st (temperedScale st) k 0 []"

definition discreteBars :: "analyzer \<Rightarrow> bar list" where
  "discreteBars st =
     (let ml = js_log10 (minFreq st);
          lw = js_div (Fin (real_of_int (analyzerWidth st))) (js_sub (js_log10 (maxFreq st)) ml)
      in discreteLoop st lw ml (freqToBin st (minFreq st) Floor)
           (freqToBin st (maxFreq st) Round) (Fin (- 999)) [])"

definition calcBars :: "analyzer \<Rightarrow> error option \<times> analyzer" where
  "calcBars st =
     (if \<not> ready st then (None, st\<lparr> bars := [] \<rparr>)
      else if isOctaveBands st then
        (case steps (mode st) of
           None \<Rightarrow> (Some TypeError, st\<lparr> bars := [] \<rparr>)
         | Some k \<Rightarrow>
             (case octaveBars st k of
                (Some e, bs) \<Rightarrow> (Some e, st\<lparr> bars := bs \<rparr>)
              | (None, bs) \<Rightarrow>
                  (let bw = js_div (Fin (real_of_int (analyzerWidth st))) (Fin (real (length bs)));
                       bs' = setPosX st bw bs
                   in if bs' = [] then (Some TypeError, st\<lparr> bars := bs', barWidth := bw \<rparr>)
                      else
                        (let ml = js_log10 (freqLo (hd bs'))
                         in finishBars (st\<lparr> bars := bs', barWidth := bw \<rparr>) ml
                              (js_div (Fin (real_of_int (analyzerWidth st)))
                                 (js_sub (js_log10 (freqHi (last bs'))) ml))))))
      else
        (let ml = js_log10 (minFreq st);
             lw = js_div (Fin (real_of_int (analyzerWidth st))) (js_sub (js_log10 (maxFreq st)) ml)
         in finishBars (st\<lparr> bars := discreteBars st, barWidth := Fin 1 \<rparr>) ml lw))"

section \<open>Configuration setters\<close>

definition setFreqRange :: "real \<Rightarrow> real \<Rightarrow> analyzer \<Rightarrow> error option \<times> analyzer" where
  "setFreqRange mn mx st =
     (if mn < 1 \<or> mx < 1 then (Some ERR_FREQUENCY_TOO_LOW, st)
      else calcBars (st\<lparr> minFreq := min mn mx, maxFreq := max mn mx \<rparr>))"

definition minFreq_setter :: "real \<Rightarrow> analyzer \<Rightarrow> error option \<times> analyzer" where
  "minFreq_setter v st =
     (if v < 1 then (Some ERR_FREQUENCY_TOO_LOW, st) else calcBars (st\<lparr> minFreq := v \<rparr>))"

definition maxFreq_setter :: "real \<Rightarrow> analyzer \<Rightarrow> error option \<times> analyzer" where
  "maxFreq_setter v st =
     (if v < 1 then (Some ERR_FREQUENCY_TOO_LOW, st) else calcBars (st\<lparr> maxFreq := v \<rparr>))"

text \<open>The setter of \<open>mode\<close>; \<open>_makeGrad\<close> (drawing only) is left out.\<close>

definition mode_setter :: "real \<Rightarrow> analyzer \<Rightarrow> error option \<times> analyzer" where
  "mode_setter v st =
     (let m = toInt32 v
      in if 0 \<le> m \<and> m \<le> 10 \<and> m \<noteq> 9 then calcBars (calcAux (st\<lparr> mode := m \<rparr>))
         else (Some ERR_INVALID_MODE, st))"

section \<open>The frame update: the peaks of \<open>drawBarsLines\<close> and \<open>_draw\<close>\<close>

text \<open>A read of the byte array: \<open>undefined\<close> outside it.\<close>

definition fftGet :: "8 word list \<Rightarrow> int \<Rightarrow> jsnum" where
  "fftGet d i = (if 0 \<le> i \<and> i < int (length d) then Fin (real (unat (d ! nat i))) else NaN)"

definition interpolate :: "8 word list \<Rightarrow> int \<Rightarrow> jsnum \<Rightarrow> jsnum" where
  "interpolate d b r = js_add (fftGet d b) (js_mul (js_sub (fftGet d (b + 1)) (fftGet d b)) r)"

text \<open>The bar's height: the larger edge value, then the bins between the edges, over 255.\<close>

definition barHeightOf :: "8 word list \<Rightarrow> bar \<Rightarrow> jsnum" where
  "barHeightOf d b =
     js_div
       (foldl (\<lambda>h j. if js_gt (fftGet d j) h then fftGet d j else h)
          (js_max (interpolate d (binLo b) (ratioLo b)) (interpolate d (binHi b) (ratioHi b)))
          [binLo b + 1..binHi b - 1])
       (Fin 255)"

text \<open>
  The peak of one bar on one channel, lines \<open>update bar peak\<close> and \<open>check if it's a new
  peak\<close> of \<open>drawBarsLines\<close>, for the height \<open>barHeight\<close> of this frame.
\<close>

definition updateBarPeak :: "real \<Rightarrow> nat \<Rightarrow> jsnum \<Rightarrow> bar \<Rightarrow> bar" where
  "updateBarPeak maxBarHeight channel barHeight b =
     (let b1 =
        (if js_gt (arrayGet (peak b) channel) (Fin 0) then
           (let b' = b\<lparr> hold := arraySet (hold b) channel (js_sub (arrayGet (hold b) channel) (Fin 1)) \<rparr>
            in if js_lt (arrayGet (hold b') channel) (Fin 0) then
                 b'\<lparr> peak := arraySet (peak b') channel
                              (js_add (arrayGet (peak b') channel)
                                 (js_div (arrayGet (hold b') channel) (Fin maxBarHeight))) \<rparr>
               else b')
         else b)
      in if js_ge barHeight (arrayGet (peak b1) channel) then
           b1\<lparr> peak := arraySet (peak b1) channel barHeight,
                hold := arraySet (hold b1) channel (Fin 30) \<rparr>
         else b1)"

text \<open>
  The body of the loop of \<open>drawBarsLines\<close> for one bar, up to \<open>if (!useCanvas) continue\<close>:
  the height of the bar from the byte array \<open>d\<close> of this frame, its value and its peak.
  The drawing that follows in the loop body is not part of this development.
\<close>

definition updateBar :: "real \<Rightarrow> 8 word list \<Rightarrow> nat \<Rightarrow> bar \<Rightarrow> bar" where
  "updateBar maxBarHeight d channel b =
     updateBarPeak maxBarHeight channel (barHeightOf d b)
       (b\<lparr> barValue := arraySet (barValue b) channel (barHeightOf d b) \<rparr>)"

text \<open>
  The lines \<open>Update energy\<close> of \<open>_draw\<close>, for a sum \<open>currentEnergy\<close> over \<open>nBars\<close> bars.
  The calls of \<open>_draw\<close> themselves, with the drawing between the bar updates and these
  lines, are not part of this development.
\<close>

definition updateEnergy :: "jsnum \<Rightarrow> nat \<Rightarrow> bool \<Rightarrow> energyState \<Rightarrow> energyState" where
  "updateEnergy currentEnergy nBars isStereo e =
     (let v = js_div currentEnergy (Fin (real (nBars * (if isStereo then 2 else 1))))
      in if js_ge v (energyPeak e) then
           e\<lparr> energyVal := v, energyPeak := v, energyHold := 30 \<rparr>
         else if 0 < energyHold e then
           e\<lparr> energyVal := v, energyHold := energyHold e - 1 \<rparr>
         else if js_gt (energyPeak e) (Fin 0) then
           e\<lparr> energyVal := v,
               energyPeak := js_mul (energyPeak e) (Fin ((30 + real_of_int (energyHold e)) / 30)),
               energyHold := energyHold e - 1 \<rparr>
         else e\<lparr> energyVal := v \<rparr>)"

section \<open>Energy queries: \<open>getEnergy\<close>\<close>

datatype jsarg = Undefined | Number real | String string

datatype jsresult = Null | Num jsnum

definition presets :: "(string \<times> real \<times> real) list" where
  "presets = [(''bass'', 20, 250), (''lowMid'', 250, 500), (''mid'', 500, 2000),
              (''highMid'', 2000, 4000), (''treble'', 4000, 16000)]"

text \<open>
  \<open>presets\<close> is an object literal: a lookup that finds no property of its own goes on to
  \<open>Object.prototype\<close>, whose standard properties are these names.
\<close>

definition objectPrototypeKeys :: "string list" where
  "objectPrototypeKeys =
     [''constructor'', ''hasOwnProperty'', ''isPrototypeOf'', ''propertyIsEnumerable'',
      ''toLocaleString'', ''toString'', ''valueOf'', ''__proto__'', ''__defineGetter__'',
      ''__defineSetter__'', ''__lookupGetter__'', ''__lookupSetter__'']"

text \<open>The average of the bytes of the bins from \<open>startFreq\<close> to \<open>endFreq\<close>.\<close>

definition rangeEnergy :: "analyzer \<Rightarrow> real \<Rightarrow> real option \<Rightarrow> jsnum" where
  "rangeEnergy st f endFreq =
     (let startBin = freqToBin st f Round;
          endBin = (case endFreq of
                      Some e \<Rightarrow> if e \<noteq> 0 then freqToBin st e Round else startBin
                    | None \<Rightarrow> startBin);
          chnCount = (if stereo st then 2 else 1);
          total = foldl (\<lambda>acc channel.
                           foldl (\<lambda>a i. js_add a (fftGet (if channel = 0 then fst (fftData st)
                                                            else snd (fftData st)) i))
                             acc [startBin..endBin])
                    (Fin 0) [0..<chnCount]
      in js_div (js_div (js_div total (Fin (real_of_int (endBin - startBin + 1))))
                   (Fin (real chnCount))) (Fin 255))"

text \<open>
  \<open>getEnergy\<close>. The coercion of a string to a number is the language's, not the
  repository's: it is the parameter \<open>toNumber\<close>, with \<open>None\<close> for NaN. The test
  \<open>startFreq != +startFreq\<close> holds for a string exactly when its coercion is NaN.
  A number argument is finite here. The function assigns nothing to the analyzer, so it
  is a function of the state that returns the value, or the error thrown.
\<close>

definition getEnergy ::
  "(string \<Rightarrow> real option) \<Rightarrow> analyzer \<Rightarrow> jsarg \<Rightarrow> real option \<Rightarrow> error + jsresult" where
  "getEnergy toNumber st startFreq endFreq =
     (case startFreq of
        Undefined \<Rightarrow> Inr (Num (energyVal (energy st)))
      | Number f \<Rightarrow> Inr (Num (rangeEnergy st f endFreq))
      | String s \<Rightarrow>
          (case toNumber s of
             Some f \<Rightarrow> Inr (Num (rangeEnergy st f endFreq))
           | None \<Rightarrow>
               if s = ''peak'' then Inr (Num (energyPeak (energy st)))
               else (case map_of presets s of
                       Some (lo, hi) \<Rightarrow> Inr (Num (rangeEnergy st lo (Some hi)))
                     | None \<Rightarrow>
                         if s \<in> set objectPrototypeKeys then Inl TypeError else Inr Null)))"

section \<open>Concrete configurations\<close>

text \<open>
  An analyzer with the default options on a 640 by 270 canvas, at 44100 Hz, with the
  values \<open>_calcAux\<close> derives for it, before any bar is built.
\<close>

definition defaultAnalyzer :: analyzer where
  "defaultAnalyzer =
     \<lparr> ready = True, mode = 0, minFreq = 20, maxFreq = 22000, fftSize = 8192,
       sampleRate = 44100, stereo = False, radial = False, mirror = 0, showLeds = False,
       lumiBars = False, reflexRatio = 0, canvasWidth = 640, canvasHeight = 270,
       pixelRatio = 1, devicePixelRatio = 1, screenHeight = 1080, ledParams = None,
       radius = 33, isOctaveBands = False, isLedDisplay = False, isLumiBars = False,
       maximizeLeds = True, channelHeight = 270, analyzerHeight = 270, analyzerWidth = 640,
       initialX = 0, barWidth = Fin 1, bars = [], minLog = Fin 0, logWidth = Fin 0,
       leds = None, energy = \<lparr> energyVal = Fin 0, energyPeak = Fin 0, energyHold = 0 \<rparr>,
       fftData = (replicate 4096 0, replicate 4096 0) \<rparr>"

text \<open>
  The coercion of a string to a number, on the strings it is used at below: a non-empty
  string of decimal digits is its decimal value, and a string that starts with a letter
  other than \<open>I\<close> is no numeric literal (NaN). Any other string is mapped to NaN here
  without a claim that the language does so.
\<close>

definition decimalToNumber :: "string \<Rightarrow> real option" where
  "decimalToNumber s =
     (if s \<noteq> [] \<and> set s \<subseteq> set ''0123456789''
      then Some (real (foldl (\<lambda>n c. 10 * n + (of_char c - 48)) 0 s))
      else None)"

text \<open>A bar whose peak on channel 0 is 1 and whose hold time has run out.\<close>

definition decayingBar :: bar where
  "decayingBar =
     \<lparr> posX = Fin 0, binLo = 1, binHi = 2, freqLo = 10, freqHi = 15,
       ratioLo = Fin 0, ratioHi = Fin 0,
       peak = [Fin 1, Fin 0], hold = [Fin 0], barValue = [Fin 0] \<rparr>"

text \<open>A bar, and an energy record, right after a peak of 1 was registered.\<close>

definition peakedBar :: bar where
  "peakedBar =
     \<lparr> posX = Fin 0, binLo = 1, binHi = 2, freqLo = 10, freqHi = 15,
       ratioLo = Fin 0, ratioHi = Fin 0,
       peak = [Fin 1, Fin 0], hold = [Fin 30], barValue = [Fin 1] \<rparr>"

definition peakedEnergy :: energyState where
  "peakedEnergy = \<lparr> energyVal = Fin 1, energyPeak = Fin 1, energyHold = 30 \<rparr>"

text \<open>
  The default analyzer in mode 1 on a canvas one pixel high, and in mode 1 with the
  option \<open>loRes\<close> on a display of pixel ratio 1: the pixel ratio is halved, and so is the
  canvas.
\<close>

definition tinyCanvasAnalyzer :: analyzer where
  "tinyCanvasAnalyzer = calcAux (defaultAnalyzer\<lparr> mode := 1, canvasHeight := 1 \<rparr>)"

definition loResAnalyzer :: analyzer where
  "loResAnalyzer =
     calcAux (defaultAnalyzer\<lparr> mode := 1, pixelRatio := 1 / 2, canvasWidth := 320, canvasHeight := 135 \<rparr>)"








section \<open>Basic facts\<close>

subsection \<open>What \<open>_calcAux\<close> keeps and derives\<close>

lemma calcAux_same:
  "ready (calcAux st) = ready st" "mode (calcAux st) = mode st"
  "minFreq (calcAux st) = minFreq st" "maxFreq (calcAux st) = maxFreq st"
  "fftSize (calcAux st) = fftSize st" "sampleRate (calcAux st) = sampleRate st"
  "stereo (calcAux st) = stereo st" "radial (calcAux st) = radial st"
  "canvasWidth (calcAux st) = canvasWidth st" "canvasHeight (calcAux st) = canvasHeight st"
  "pixelRatio (calcAux st) = pixelRatio st" "devicePixelRatio (calcAux st) = devicePixelRatio st"
  "screenHeight (calcAux st) = screenHeight st" "ledParams (calcAux st) = ledParams st"
  "barWidth (calcAux st) = barWidth st" "bars (calcAux st) = bars st"
  "leds (calcAux st) = leds st" "energy (calcAux st) = energy st"
  "fftData (calcAux st) = fftData st"
  by (simp_all add: calcAux_def Let_def)

lemma calcAux_derived:
  "isOctaveBands (calcAux st) = (mode st mod 10 \<noteq> 0)"
  "maximizeLeds (calcAux st)
     = (\<not> stereo st \<or> (0 < reflexRatio st \<and> \<not> (lumiBars st \<and> mode st mod 10 \<noteq> 0 \<and> \<not> radial st)))"
  "analyzerWidth (calcAux st) = canvasWidth st - canvasWidth st div 2 * (if mirror st \<noteq> 0 then 1 else 0)"
  "initialX (calcAux st) = canvasWidth st div 2 * (if mirror st = - 1 \<and> \<not> radial st then 1 else 0)"
  by (auto simp: calcAux_def Let_def)

lemma calcAux_height_plain:
  "\<not> stereo st \<Longrightarrow> \<not> radial st \<Longrightarrow> \<not> lumiBars st \<Longrightarrow> reflexRatio st = 0 \<Longrightarrow>
   analyzerHeight (calcAux st) = toInt32 (real_of_int (toInt32 (real_of_int (canvasHeight st))))"
  by (simp add: calcAux_def Let_def)

lemma dPR_calcAux: "dPR (calcAux st) = dPR st"
  by (simp add: dPR_def calcAux_same)

subsection \<open>Truncation\<close>

lemma toInt32_floor: "0 \<le> x \<Longrightarrow> x < 2 ^ 31 \<Longrightarrow> toInt32 x = \<lfloor>x\<rfloor>"
proof -
  assume a: "0 \<le> x" "x < 2 ^ 31"
  have 0: "0 \<le> \<lfloor>x\<rfloor>" using a by simp
  have "\<lfloor>x\<rfloor> < 2 ^ 31" using a by (simp add: floor_less_iff)
  then have 1: "\<lfloor>x\<rfloor> mod 2 ^ 32 = \<lfloor>x\<rfloor>" "\<not> 2 ^ 31 \<le> \<lfloor>x\<rfloor>" using 0 by simp_all
  show ?thesis using a 1 by (simp add: toInt32_def Let_def)
qed

lemma toInt32_small: "0 \<le> m \<Longrightarrow> m \<le> 10 \<Longrightarrow> toInt32 (real_of_int m) = m"
  by (simp add: toInt32_def Let_def)

subsection \<open>The bars after the rebuild\<close>

text \<open>\<open>_calcLeds\<close> and the end of \<open>_calcBars\<close> leave the bars as they are.\<close>

lemma bars_calcLeds: "bars (snd (calcLeds s)) = bars s"
proof (cases "\<not> isOctaveBands s \<or> \<not> ready s")
  case True
  then show ?thesis by (simp add: calcLeds_def)
next
  case False
  note f = False
  show ?thesis
  proof (cases "ledParams s")
    case None
    show ?thesis
    proof (cases "ledTable (mode s)")
      case None
      then show ?thesis using f \<open>ledParams s = None\<close> by (simp add: calcLeds_def)
    next
      case (Some row)
      then show ?thesis using f \<open>ledParams s = None\<close>
        by (cases row) (simp_all add: calcLeds_def Let_def split: prod.splits)
    qed
  next
    case (Some p)
    then show ?thesis using f by (simp add: calcLeds_def Let_def split: prod.splits)
  qed
qed

lemma bars_finishBars: "bars (snd (finishBars s ml lw)) = bars s"
  by (simp add: finishBars_def bars_calcLeds calcAux_same)

text \<open>
  The octave bands branch of \<open>_calcBars\<close>: the bars are those of the loop over the
  bands, with their positions set when the loop ends without an exception.
\<close>

lemma calcBars_octave:
  assumes "ready s" "isOctaveBands s" "steps (mode s) = Some k"
  shows "case octaveBars s k of
           (Some e, bs) \<Rightarrow> calcBars s = (Some e, s\<lparr> bars := bs \<rparr>)
         | (None, bs) \<Rightarrow>
             bars (snd (calcBars s))
               = setPosX s (js_div (Fin (real_of_int (analyzerWidth s))) (Fin (real (length bs)))) bs"
proof (cases "octaveBars s k")
  case (Pair r bs)
  show ?thesis
  proof (cases r)
    case None
    then show ?thesis using assms Pair
      by (simp add: calcBars_def Let_def bars_finishBars)
  next
    case (Some e)
    then show ?thesis using assms Pair by (simp add: calcBars_def)
  qed
qed


section \<open>Bin mapper: the round trip\<close>

text \<open>
  C8 (amended). For a positive sample rate and FFT size, the bin of the frequency of bin
  \<open>b\<close>, rounded to nearest, is \<open>b\<close> again for every bin from 1 to
  \<open>frequencyBinCount - 1\<close>; for bin 0, whose frequency is taken as 1 Hz, it is 0 when
  twice the FFT size is below the sample rate.
\<close>

theorem freqToBin_binToFreq_roundtrip:
  assumes sr: "0 < sampleRate st" and n: "0 < fftSize st"
    and b0: "0 \<le> b" and bmax: "b \<le> frequencyBinCount st - 1"
    and ok: "1 \<le> b \<or> 2 * real (fftSize st) < sampleRate st"
  shows "freqToBin st (binToFreq st b) Round = b"
proof (cases "1 \<le> b")
  case True
  then have nz: "real_of_int b * sampleRate st / real (fftSize st) \<noteq> 0"
    using sr n by simp
  have eq: "real_of_int b * sampleRate st / real (fftSize st) * real (fftSize st) / sampleRate st
            = real_of_int b"
    using sr n by simp
  have fl: "\<lfloor>real_of_int b + 1 / 2\<rfloor> = b" by linarith
  show ?thesis
    using bmax nz by (simp add: freqToBin_def binToFreq_def Let_def eq fl)
next
  case False
  then have b: "b = 0" and small: "2 * real (fftSize st) < sampleRate st"
    using b0 ok by auto
  have "real (fftSize st) / sampleRate st < 1 / 2"
    using small sr by (simp add: field_simps)
  moreover have "0 \<le> real (fftSize st) / sampleRate st" using sr by simp
  ultimately have fl: "\<lfloor>real (fftSize st) / sampleRate st + 1 / 2\<rfloor> = 0" by linarith
  show ?thesis
    using bmax b by (simp add: freqToBin_def binToFreq_def Let_def fl)
qed

text \<open>The round trip at the defaults (FFT size 8192 at 44100 Hz), for bins 0 and 7.\<close>

theorem freqToBin_binToFreq_roundtrip_witness:
  "freqToBin defaultAnalyzer (binToFreq defaultAnalyzer 0) Round = 0
   \<and> freqToBin defaultAnalyzer (binToFreq defaultAnalyzer 7) Round = 7"
  using freqToBin_binToFreq_roundtrip [of defaultAnalyzer 0]
    freqToBin_binToFreq_roundtrip [of defaultAnalyzer 7]
  by (simp add: defaultAnalyzer_def frequencyBinCount_def)

text \<open>
  With an FFT size of 32768 at 44100 Hz, bin 0 has the frequency 1 Hz, and 1 Hz rounds
  to bin 1: the round trip fails at bin 0.
\<close>

theorem freqToBin_binToFreq_bin0_counterexample:
  "freqToBin (defaultAnalyzer\<lparr> fftSize := 32768 \<rparr>)
     (binToFreq (defaultAnalyzer\<lparr> fftSize := 32768 \<rparr>) 0) Round \<noteq> 0"
  by (simp add: freqToBin_def binToFreq_def Let_def defaultAnalyzer_def frequencyBinCount_def)

section \<open>Selection of the grouping algorithm\<close>

text \<open>
  C3 (amended). For a valid mode (0 to 10, not 9), \<open>_calcAux\<close> selects the octave bands
  algorithm exactly for the modes 1 to 8, where the numbers of notes per band are 1, 2,
  3, 4, 6, 8, 12 and 24. Setting such a mode on a ready analyzer builds the bars with the
  loop over the bands of that many notes: they are the bars of that loop, with their
  positions set, or the bars the loop had pushed when it threw. Mode 10 is not an octave
  bands mode: setting it on a ready analyzer throws nothing and builds the bars with the
  discrete frequencies algorithm.
\<close>

theorem octave_selection:
  assumes "0 \<le> m" "m \<le> 10" "m \<noteq> 9" "ready st"
  shows "(isOctaveBands (calcAux (st\<lparr> mode := m \<rparr>)) \<longleftrightarrow> 1 \<le> m \<and> m \<le> 8)
    \<and> map steps [1, 2, 3, 4, 5, 6, 7, 8] = map Some [1, 2, 3, 4, 6, 8, 12, 24]
    \<and> (1 \<le> m \<and> m \<le> 8 \<longrightarrow>
         (\<exists>k. steps m = Some k \<and>
            (case octaveBars (calcAux (st\<lparr> mode := m \<rparr>)) k of
               (Some e, bs) \<Rightarrow>
                 mode_setter (real_of_int m) st = (Some e, (calcAux (st\<lparr> mode := m \<rparr>))\<lparr> bars := bs \<rparr>)
             | (None, bs) \<Rightarrow>
                 bars (snd (mode_setter (real_of_int m) st))
                   = setPosX (calcAux (st\<lparr> mode := m \<rparr>))
                       (js_div (Fin (real_of_int (analyzerWidth (calcAux (st\<lparr> mode := m \<rparr>)))))
                          (Fin (real (length bs)))) bs)))
    \<and> fst (mode_setter 10 st) = None
    \<and> bars (snd (mode_setter 10 st)) = discreteBars (calcAux (st\<lparr> mode := 10 \<rparr>))"
proof -
  have a: "isOctaveBands (calcAux (st\<lparr> mode := m \<rparr>)) \<longleftrightarrow> 1 \<le> m \<and> m \<le> 8"
  proof -
    have "m mod 10 \<noteq> 0 \<longleftrightarrow> 1 \<le> m \<and> m \<le> 8" using assms(1-3) by presburger
    then show ?thesis by (simp add: calcAux_derived)
  qed
  have b: "map steps [1, 2, 3, 4, 5, 6, 7, 8] = map Some [1, 2, 3, 4, 6, 8, 12, 24]"
    by (simp add: steps_def)
  have r: "ready (calcAux (st\<lparr> mode := 10 \<rparr>))"
    and o: "\<not> isOctaveBands (calcAux (st\<lparr> mode := 10 \<rparr>))"
    using assms by (simp_all add: calcAux_same calcAux_derived)
  have c: "mode_setter 10 st = calcBars (calcAux (st\<lparr> mode := 10 \<rparr>))"
    by (simp add: mode_setter_def toInt32_def)
  have e: "fst (calcBars (calcAux (st\<lparr> mode := 10 \<rparr>))) = None"
    "bars (snd (calcBars (calcAux (st\<lparr> mode := 10 \<rparr>))))
     = discreteBars (calcAux (st\<lparr> mode := 10 \<rparr>))"
    using r o by (simp_all add: calcBars_def finishBars_def calcLeds_def Let_def calcAux_def)
  have d: "\<exists>k. steps m = Some k \<and>
            (case octaveBars (calcAux (st\<lparr> mode := m \<rparr>)) k of
               (Some e, bs) \<Rightarrow>
                 mode_setter (real_of_int m) st = (Some e, (calcAux (st\<lparr> mode := m \<rparr>))\<lparr> bars := bs \<rparr>)
             | (None, bs) \<Rightarrow>
                 bars (snd (mode_setter (real_of_int m) st))
                   = setPosX (calcAux (st\<lparr> mode := m \<rparr>))
                       (js_div (Fin (real_of_int (analyzerWidth (calcAux (st\<lparr> mode := m \<rparr>)))))
                          (Fin (real (length bs)))) bs)"
    if m: "1 \<le> m \<and> m \<le> 8"
  proof -
    define s where "s = calcAux (st\<lparr> mode := m \<rparr>)"
    obtain k where k: "steps m = Some k" using m by (simp add: steps_def)
    have ms: "mode_setter (real_of_int m) st = calcBars s"
      using assms(1-3) by (simp add: mode_setter_def toInt32_small s_def)
    have s: "ready s" "isOctaveBands s" "steps (mode s) = Some k"
      using assms(4) a m k by (simp_all add: s_def calcAux_same)
    show ?thesis unfolding s_def[symmetric] ms using k calcBars_octave[OF s] by simp
  qed
  show ?thesis unfolding c using a b d e by simp
qed

text \<open>
  Mode 4 on the default analyzer selects the octave bands and builds the bars with the
  loop over bands of 4 notes; mode 10 builds them with the discrete frequencies.
\<close>

theorem octave_selection_witness:
  "isOctaveBands (calcAux (defaultAnalyzer\<lparr> mode := 4 \<rparr>))
   \<and> steps 4 = Some 4
   \<and> (case octaveBars (calcAux (defaultAnalyzer\<lparr> mode := 4 \<rparr>)) 4 of
        (Some e, bs) \<Rightarrow>
          mode_setter 4 defaultAnalyzer = (Some e, (calcAux (defaultAnalyzer\<lparr> mode := 4 \<rparr>))\<lparr> bars := bs \<rparr>)
      | (None, bs) \<Rightarrow>
          bars (snd (mode_setter 4 defaultAnalyzer))
            = setPosX (calcAux (defaultAnalyzer\<lparr> mode := 4 \<rparr>))
                (js_div (Fin (real_of_int (analyzerWidth (calcAux (defaultAnalyzer\<lparr> mode := 4 \<rparr>)))))
                   (Fin (real (length bs)))) bs)
   \<and> fst (mode_setter 10 defaultAnalyzer) = None
   \<and> bars (snd (mode_setter 10 defaultAnalyzer))
     = discreteBars (calcAux (defaultAnalyzer\<lparr> mode := 10 \<rparr>))"
proof -
  have r: "ready defaultAnalyzer" by (simp add: defaultAnalyzer_def)
  show ?thesis using octave_selection [of 4 defaultAnalyzer, OF _ _ _ r]
    unfolding of_int_numeral by (simp add: steps_def)
qed

text \<open>Mode 10 leaves the octave bands flag unset: \<open>10 % 10\<close> is 0.\<close>

theorem mode10_not_octave_counterexample:
  "\<not> isOctaveBands (calcAux (defaultAnalyzer\<lparr> mode := 10 \<rparr>))"
  by (simp add: calcAux_def Let_def)

section \<open>Rejected frequency bounds\<close>

text \<open>
  C9. A bound below 1 Hz given to \<open>setFreqRange\<close>, or to the setter of \<open>minFreq\<close> or of
  \<open>maxFreq\<close>, throws the frequency error (its code is \<open>ERR_FREQUENCY_TOO_LOW\<close>) and
  leaves the analyzer exactly as it was: the stored bounds, the bars and every other
  field.
\<close>

theorem low_frequency_rejected:
  "(mn < 1 \<or> mx < 1 \<longrightarrow> setFreqRange mn mx st = (Some ERR_FREQUENCY_TOO_LOW, st))
   \<and> (v < 1 \<longrightarrow> minFreq_setter v st = (Some ERR_FREQUENCY_TOO_LOW, st)
               \<and> maxFreq_setter v st = (Some ERR_FREQUENCY_TOO_LOW, st))"
  by (simp add: setFreqRange_def minFreq_setter_def maxFreq_setter_def)

text \<open>The bound 0.5 Hz on the default analyzer.\<close>

theorem low_frequency_rejected_witness:
  "setFreqRange (1 / 2) 22000 defaultAnalyzer = (Some ERR_FREQUENCY_TOO_LOW, defaultAnalyzer)
   \<and> minFreq_setter (1 / 2) defaultAnalyzer = (Some ERR_FREQUENCY_TOO_LOW, defaultAnalyzer)
   \<and> maxFreq_setter (1 / 2) defaultAnalyzer = (Some ERR_FREQUENCY_TOO_LOW, defaultAnalyzer)"
  using low_frequency_rejected [of "1 / 2" 22000 defaultAnalyzer "1 / 2"] by simp

section \<open>Energy queries\<close>

text \<open>
  C10 (amended). With no argument \<open>getEnergy\<close> returns the current energy value, and with
  \<open>'peak'\<close> the current energy peak. For every string whose coercion to a number is NaN
  and that is neither \<open>'peak'\<close>, nor a preset name, nor the name of a property that the
  preset table inherits from \<open>Object.prototype\<close>, it returns null. It never changes the
  analyzer.
\<close>

theorem getEnergy_unknown_name:
  "getEnergy toNumber st Undefined e = Inr (Num (energyVal (energy st)))
   \<and> (toNumber ''peak'' = None
        \<longrightarrow> getEnergy toNumber st (String ''peak'') e = Inr (Num (energyPeak (energy st))))
   \<and> (toNumber s = None \<and> s \<noteq> ''peak''
        \<and> s \<notin> {''bass'', ''lowMid'', ''mid'', ''highMid'', ''treble''}
        \<and> s \<notin> set objectPrototypeKeys
        \<longrightarrow> getEnergy toNumber st (String s) e = Inr Null)"
  by (simp add: getEnergy_def presets_def)

text \<open>No argument, \<open>'peak'\<close> and the unknown name \<open>'foo'\<close> on the default analyzer.\<close>

theorem getEnergy_unknown_name_witness:
  "getEnergy decimalToNumber defaultAnalyzer Undefined None = Inr (Num (Fin 0))
   \<and> getEnergy decimalToNumber defaultAnalyzer (String ''peak'') None = Inr (Num (Fin 0))
   \<and> getEnergy decimalToNumber defaultAnalyzer (String ''foo'') None = Inr Null"
  using getEnergy_unknown_name [of decimalToNumber defaultAnalyzer None "''foo''"]
  by (simp add: decimalToNumber_def defaultAnalyzer_def presets_def objectPrototypeKeys_def)

text \<open>
  The string \<open>'100'\<close> is neither \<open>'peak'\<close> nor a preset name, but it equals its own
  coercion 100, so it is taken as a frequency: the result is a number, not null.
\<close>

theorem getEnergy_numeric_string_counterexample:
  "getEnergy decimalToNumber defaultAnalyzer (String ''100'') None \<noteq> Inr Null"
  by (simp add: getEnergy_def decimalToNumber_def)

text \<open>
  A name inherited from \<open>Object.prototype\<close> finds a value that is not a pair of
  frequencies: destructuring it throws.
\<close>

lemma getEnergy_inherited_name:
  "getEnergy decimalToNumber defaultAnalyzer (String ''toString'') None = Inl TypeError"
  by (simp add: getEnergy_def decimalToNumber_def presets_def objectPrototypeKeys_def)

section \<open>The peak tracker\<close>

subsection \<open>One frame\<close>

lemma arrayGet_nth: "i < length xs \<Longrightarrow> arrayGet xs i = xs ! i"
  by (simp add: arrayGet_def)

lemma arraySet_upd: "i < length xs \<Longrightarrow> arraySet xs i v = xs[i := v]"
  by (simp add: arraySet_def)

lemma updateBarPeak_step:
  assumes c: "c < length (peak b)" "c < length (hold b)"
    and p: "peak b ! c = Fin p" and h: "hold b ! c = Fin h" and M: "0 < M"
  shows "peak (updateBarPeak M c (Fin v) b) =
           (peak b)[c := Fin (if 0 < p \<and> h - 1 < 0
                              then (if p + (h - 1) / M \<le> v then v else p + (h - 1) / M)
                              else (if p \<le> v then v else p))]"
    and "hold (updateBarPeak M c (Fin v) b) =
           (hold b)[c := Fin (if 0 < p \<and> h - 1 < 0
                              then (if p + (h - 1) / M \<le> v then 30 else h - 1)
                              else (if p \<le> v then 30 else if 0 < p then h - 1 else h))]"
  using assms
  by (auto simp: updateBarPeak_def Let_def arrayGet_nth arraySet_upd js_gt_def js_ge_def js_sub_def
      list_update_same_conv[THEN iffD2])

lemma updateEnergy_step:
  assumes q: "energyPeak e = Fin q" and nb: "0 < nBars"
  shows "energyPeak (updateEnergy (Fin w) nBars s e) =
           Fin (let v = w / real (nBars * (if s then 2 else 1)) in
                if q \<le> v then v else if 0 < energyHold e then q
                else if 0 < q then q * ((30 + real_of_int (energyHold e)) / 30) else q)"
    and "energyHold (updateEnergy (Fin w) nBars s e) =
           (let v = w / real (nBars * (if s then 2 else 1)) in
                if q \<le> v then 30 else if 0 < energyHold e then energyHold e - 1
                else if 0 < q then energyHold e - 1 else energyHold e)"
  using assms
  by (auto simp: updateEnergy_def Let_def js_gt_def js_ge_def)


subsection \<open>Frames of zero input\<close>

text \<open>One bar on one channel, for frames of height 0.\<close>

lemma bar_hold_phase:
  assumes c: "c < length (peak b)" "c < length (hold b)"
    and p: "peak b ! c = Fin P" and h: "hold b ! c = Fin 30" and P: "0 < P" and M: "0 < M"
    and n: "n \<le> 30"
  shows "peak ((updateBarPeak M c (Fin 0) ^^ n) b) = peak b
       \<and> hold ((updateBarPeak M c (Fin 0) ^^ n) b) = (hold b)[c := Fin (30 - real n)]"
  using n
proof (induction n)
  case 0
  show ?case using h by (simp add: list_update_same_conv[THEN iffD2] c)
next
  case (Suc n)
  define b' where "b' = (updateBarPeak M c (Fin 0) ^^ n) b"
  have ih: "peak b' = peak b" "hold b' = (hold b)[c := Fin (30 - real n)]"
    using Suc by (simp_all add: b'_def)
  have c': "c < length (peak b')" "c < length (hold b')" using c ih by simp_all
  have p': "peak b' ! c = Fin P" using ih p by simp
  have h': "hold b' ! c = Fin (30 - real n)" using ih c by simp
  have n30: "real n < 30" using Suc.prems by simp
  have "peak (updateBarPeak M c (Fin 0) b') = (peak b)[c := Fin P]"
    using updateBarPeak_step(1)[OF c' p' h' M, of 0] P n30 ih by simp
  moreover have "(peak b)[c := Fin P] = peak b"
    using p c by (simp add: list_update_same_conv[THEN iffD2])
  moreover have "hold (updateBarPeak M c (Fin 0) b') = (hold b)[c := Fin (30 - real (Suc n))]"
    using updateBarPeak_step(2)[OF c' p' h' M, of 0] P n30 ih by (simp add: algebra_simps)
  ultimately show ?case by (simp add: b'_def)
qed

lemma bar_decay_step:
  assumes c: "c < length (peak b')" "c < length (hold b')"
    and p: "peak b' ! c = Fin p" and h: "hold b' ! c = Fin hh" and M: "0 < M"
    and pos: "0 < p" and neg: "hh - 1 < 0" and nxt: "p + (hh - 1) / M = q"
  shows "peak (updateBarPeak M c (Fin 0) b') = (peak b')[c := Fin (if q \<le> 0 then 0 else q)]"
    and "hold (updateBarPeak M c (Fin 0) b') = (hold b')[c := Fin (if q \<le> 0 then 30 else hh - 1)]"
  using updateBarPeak_step[OF c p h M, of 0] pos neg nxt by simp_all

lemma bar_decay_phase:
  assumes c: "c < length (peak b)" "c < length (hold b)"
    and p: "peak b ! c = Fin P" and h: "hold b ! c = Fin 30" and P: "0 < P" and M: "0 < M"
    and j: "real (j * (j + 1)) / 2 < P * M"
  shows "peak ((updateBarPeak M c (Fin 0) ^^ (30 + j)) b)
           = (peak b)[c := Fin (P - real (j * (j + 1)) / (2 * M))]
       \<and> hold ((updateBarPeak M c (Fin 0) ^^ (30 + j)) b) = (hold b)[c := Fin (- real j)]"
  using j
proof (induction j)
  case 0
  show ?case using bar_hold_phase[OF c p h P M, of 30] p c
    by (simp add: list_update_same_conv[THEN iffD2])
next
  case (Suc j)
  define b' where "b' = (updateBarPeak M c (Fin 0) ^^ (30 + j)) b"
  define pj where "pj = P - real (j * (j + 1)) / (2 * M)"
  define q where "q = P - real (Suc j * (Suc j + 1)) / (2 * M)"
  have lt: "real (j * (j + 1)) / 2 < P * M"
  proof -
    have "real (j * (j + 1)) \<le> real (Suc j * (Suc j + 1))" by (simp add: algebra_simps)
    then show ?thesis using Suc.prems by linarith
  qed
  have ih: "peak b' = (peak b)[c := Fin pj]" "hold b' = (hold b)[c := Fin (- real j)]"
    using Suc.IH[OF lt] by (simp_all add: b'_def pj_def)
  have c': "c < length (peak b')" "c < length (hold b')" using c ih by simp_all
  have p': "peak b' ! c = Fin pj" using ih c by simp
  have h': "hold b' ! c = Fin (- real j)" using ih c by simp
  have pos: "0 < pj" using lt M by (simp add: field_simps pj_def)
  have neg: "- real j - 1 < 0" by simp
  have nxt: "pj + (- real j - 1) / M = q"
    using M by (simp add: field_simps pj_def q_def)
  have pos': "\<not> q \<le> 0" using Suc.prems M by (simp add: field_simps q_def)
  have eq: "(updateBarPeak M c (Fin 0) ^^ (30 + Suc j)) b = updateBarPeak M c (Fin 0) b'"
    by (simp only: add_Suc_right funpow.simps o_apply b'_def)
  have "peak (updateBarPeak M c (Fin 0) b') = (peak b)[c := Fin q]"
    using bar_decay_step(1)[OF c' p' h' M pos neg nxt] pos' ih(1) by simp
  moreover have "hold (updateBarPeak M c (Fin 0) b') = (hold b)[c := Fin (- real (Suc j))]"
  proof -
    have e: "- real j - 1 = - real (Suc j)" by simp
    have "hold (updateBarPeak M c (Fin 0) b') = (hold b')[c := Fin (- real j - 1)]"
      using bar_decay_step(2)[OF c' p' h' M pos neg nxt] pos' by simp
    then show ?thesis by (simp only: ih(2) list_update_overwrite e)
  qed
  ultimately show ?case unfolding eq q_def by simp
qed

lemma bar_zero_phase:
  assumes c: "c < length (peak b)" "c < length (hold b)"
    and p: "peak b ! c = Fin P" and h: "hold b ! c = Fin 30" and P: "0 < P" and M: "0 < M"
    and j: "real (j * (j + 1)) / 2 < P * M" and j': "P * M \<le> real ((j + 1) * (j + 2)) / 2"
  shows "peak ((updateBarPeak M c (Fin 0) ^^ (31 + j)) b) = (peak b)[c := Fin 0]
       \<and> hold ((updateBarPeak M c (Fin 0) ^^ (31 + j)) b) = (hold b)[c := Fin 30]"
proof -
  define b' where "b' = (updateBarPeak M c (Fin 0) ^^ (30 + j)) b"
  define pj where "pj = P - real (j * (j + 1)) / (2 * M)"
  define q where "q = P - real ((j + 1) * (j + 2)) / (2 * M)"
  have ih: "peak b' = (peak b)[c := Fin pj]" "hold b' = (hold b)[c := Fin (- real j)]"
    using bar_decay_phase[OF c p h P M j] by (simp_all add: b'_def pj_def)
  have c': "c < length (peak b')" "c < length (hold b')" using c ih by simp_all
  have p': "peak b' ! c = Fin pj" using ih c by simp
  have h': "hold b' ! c = Fin (- real j)" using ih c by simp
  have pos: "0 < pj" using j M by (simp add: field_simps pj_def)
  have neg: "- real j - 1 < 0" by simp
  have nxt: "pj + (- real j - 1) / M = q"
    using M by (simp add: field_simps pj_def q_def)
  have le: "q \<le> 0" using j' M by (simp add: field_simps q_def)
  have "(31::nat) + j = Suc (30 + j)" by simp
  then have eq: "(updateBarPeak M c (Fin 0) ^^ (31 + j)) b = updateBarPeak M c (Fin 0) b'"
    by (simp only: funpow.simps o_apply b'_def)
  have "peak (updateBarPeak M c (Fin 0) b') = (peak b)[c := Fin 0]"
    using bar_decay_step(1)[OF c' p' h' M pos neg nxt] le ih(1) by simp
  moreover have "hold (updateBarPeak M c (Fin 0) b') = (hold b)[c := Fin 30]"
    using bar_decay_step(2)[OF c' p' h' M pos neg nxt] le ih(2) by simp
  ultimately show ?thesis unfolding eq by simp
qed

text \<open>
  An array of zeros gives the height 0 to every bar whose bins, and the bin after its
  last, are inside the array.
\<close>

lemma barHeightOf_zero:
  assumes "0 \<le> binLo b" "binLo b \<le> binHi b" "binHi b + 1 < int n"
    and "ratioLo b = Fin r1" "ratioHi b = Fin r2"
  shows "barHeightOf (replicate n 0) b = Fin 0"
proof -
  have g: "fftGet (replicate n 0) i = Fin 0" if "0 \<le> i" "i < int n" for i
    using that by (simp add: fftGet_def)
  have f: "foldl (\<lambda>h j. if js_gt (fftGet (replicate n 0) j) h then fftGet (replicate n 0) j else h)
             (Fin 0) js = Fin 0" if "\<forall>j\<in>set js. 0 \<le> j \<and> j < int n" for js
    using that by (induction js) (simp_all add: g js_gt_def)
  have i1: "interpolate (replicate n 0) (binLo b) (Fin r1) = Fin 0"
    using assms by (simp add: interpolate_def g js_sub_def)
  have i2: "interpolate (replicate n 0) (binHi b) (Fin r2) = Fin 0"
    using assms by (simp add: interpolate_def g js_sub_def)
  have m: "\<forall>j\<in>set [binLo b + 1..binHi b - 1]. 0 \<le> j \<and> j < int n"
    using assms by auto
  show ?thesis unfolding barHeightOf_def assms(4,5) i1 i2 using f[OF m] by simp
qed

text \<open>
  The peak and the hold time after a frame depend on the bar's peak and hold time only,
  and a frame leaves the bins and the ratios of the bar as they are.
\<close>

lemma updateBarPeak_peak_hold:
  assumes "peak b1 = peak b2" "hold b1 = hold b2"
  shows "peak (updateBarPeak M c v b1) = peak (updateBarPeak M c v b2)"
    and "hold (updateBarPeak M c v b1) = hold (updateBarPeak M c v b2)"
  using assms by (simp_all add: updateBarPeak_def Let_def)

lemma updateBar_same:
  "binLo (updateBar M d c b) = binLo b" "binHi (updateBar M d c b) = binHi b"
  "ratioLo (updateBar M d c b) = ratioLo b" "ratioHi (updateBar M d c b) = ratioHi b"
  by (simp_all add: updateBar_def updateBarPeak_def Let_def)

lemma updateBar_barValue:
  "arrayGet (barValue (updateBar M d c b)) c = barHeightOf d b"
  by (simp add: updateBar_def updateBarPeak_def Let_def arrayGet_def arraySet_def nth_append)

text \<open>
  Frames of an all-zero byte array, for a bar whose bins are inside the array: every
  frame has the height 0.
\<close>

lemma zero_frames:
  assumes bins: "0 \<le> binLo b" "binLo b \<le> binHi b" "binHi b + 1 < int n"
    and r: "ratioLo b = Fin r1" "ratioHi b = Fin r2"
  shows "peak ((updateBar M (replicate n 0) c ^^ k) b) = peak ((updateBarPeak M c (Fin 0) ^^ k) b)
       \<and> hold ((updateBar M (replicate n 0) c ^^ k) b) = hold ((updateBarPeak M c (Fin 0) ^^ k) b)
       \<and> barHeightOf (replicate n 0) ((updateBar M (replicate n 0) c ^^ k) b) = Fin 0
       \<and> binLo ((updateBar M (replicate n 0) c ^^ k) b) = binLo b
       \<and> binHi ((updateBar M (replicate n 0) c ^^ k) b) = binHi b
       \<and> ratioLo ((updateBar M (replicate n 0) c ^^ k) b) = ratioLo b
       \<and> ratioHi ((updateBar M (replicate n 0) c ^^ k) b) = ratioHi b"
proof (induction k)
  case 0
  show ?case using barHeightOf_zero[OF bins r] by simp
next
  case (Suc k)
  define b1 where "b1 = (updateBar M (replicate n 0) c ^^ k) b"
  define b2 where "b2 = (updateBarPeak M c (Fin 0) ^^ k) b"
  have ih: "peak b1 = peak b2" "hold b1 = hold b2" "barHeightOf (replicate n 0) b1 = Fin 0"
    "binLo b1 = binLo b" "binHi b1 = binHi b" "ratioLo b1 = ratioLo b" "ratioHi b1 = ratioHi b"
    using Suc by (simp_all add: b1_def b2_def)
  define b1' where "b1' = b1\<lparr> barValue := arraySet (barValue b1) c (Fin 0) \<rparr>"
  have u: "updateBar M (replicate n 0) c b1 = updateBarPeak M c (Fin 0) b1'"
    by (simp add: updateBar_def ih(3) b1'_def)
  have s: "peak b1' = peak b2" "hold b1' = hold b2" by (simp_all add: b1'_def ih)
  have g: "binLo (updateBar M (replicate n 0) c b1) = binLo b"
    "binHi (updateBar M (replicate n 0) c b1) = binHi b"
    "ratioLo (updateBar M (replicate n 0) c b1) = ratioLo b"
    "ratioHi (updateBar M (replicate n 0) c b1) = ratioHi b"
    by (simp_all add: updateBar_same ih)
  have z: "barHeightOf (replicate n 0) (updateBar M (replicate n 0) c b1) = Fin 0"
    by (rule barHeightOf_zero[of _ n r1 r2]) (simp_all add: g bins r)
  have "peak (updateBar M (replicate n 0) c b1) = peak (updateBarPeak M c (Fin 0) b2)"
    "hold (updateBar M (replicate n 0) c b1) = hold (updateBarPeak M c (Fin 0) b2)"
    unfolding u using updateBarPeak_peak_hold[OF s] by simp_all
  then show ?case using g z by (simp add: b1_def[symmetric] b2_def[symmetric])
qed

text \<open>Every positive real lies between two consecutive triangular numbers.\<close>

lemma triangular_bracket:
  assumes "0 < (x::real)"
  shows "\<exists>j::nat. real (j * (j + 1)) / 2 < x \<and> x \<le> real ((j + 1) * (j + 2)) / 2"
proof -
  define Q where "Q j = (x \<le> real ((j + 1) * (j + 2)) / 2)" for j :: nat
  obtain m :: nat where m: "x \<le> real m" using real_arch_simple by blast
  have "2 * m \<le> (m + 1) * (m + 2)" by simp
  then have "real (2 * m) \<le> real ((m + 1) * (m + 2))" by (simp only: of_nat_le_iff)
  then have "real m \<le> real ((m + 1) * (m + 2)) / 2" by simp
  with m have "x \<le> real ((m + 1) * (m + 2)) / 2" by (rule order_trans)
  then have "Q m" unfolding Q_def .
  then have l: "Q (LEAST j. Q j)" by (rule LeastI)
  define j where "j = (LEAST j. Q j)"
  have "real (j * (j + 1)) / 2 < x"
  proof (cases j)
    case 0
    then show ?thesis using assms by simp
  next
    case (Suc i)
    then have "i < j" by simp
    then have "\<not> Q i" unfolding j_def by (rule not_less_Least)
    then show ?thesis using Suc by (simp add: Q_def algebra_simps)
  qed
  then show ?thesis using l by (auto simp: Q_def j_def)
qed

subsection \<open>The three states\<close>

text \<open>
  C2 (amended). One frame, for a bar on a channel with peak \<open>p\<close>, hold \<open>h\<close> and new
  value \<open>v \<ge> 0\<close>, and for the energy with peak \<open>q\<close> and new value \<open>w\<close>. Rising (the
  value is at least the peak): the peak becomes the value and hold becomes 30. Holding
  (the value is below the peak and hold is positive): the peak is unchanged and hold is
  decremented. Decaying (the value is below the peak and hold is 0 or negative): hold
  goes on counting down; the energy peak is multiplied by \<open>(30 + hold) / 30\<close>, while
  the bar's peak is lowered by adding \<open>(hold - 1) / maxBarHeight\<close>, and counts as a new
  peak (hold 30) when that brings it down to the value.
\<close>

theorem peak_tracker_step:
  assumes c: "c < length (peak b)" "c < length (hold b)"
    and pb: "peak b ! c = Fin p" and hb: "hold b ! c = Fin (real_of_int h)"
    and M: "0 < M" and v: "0 \<le> v"
    and pe: "energyPeak e = Fin q" and nb: "0 < nBars"
    and w: "w = cur / real (nBars * (if s then 2 else 1))"
  shows "(p \<le> v \<longrightarrow>
            arrayGet (peak (updateBarPeak M c (Fin v) b)) c = Fin v
          \<and> arrayGet (hold (updateBarPeak M c (Fin v) b)) c = Fin 30)
    \<and> (v < p \<and> 0 < h \<longrightarrow>
            arrayGet (peak (updateBarPeak M c (Fin v) b)) c = Fin p
          \<and> arrayGet (hold (updateBarPeak M c (Fin v) b)) c = Fin (real_of_int (h - 1)))
    \<and> (v < p \<and> h \<le> 0 \<and> v < p + real_of_int (h - 1) / M \<longrightarrow>
            arrayGet (peak (updateBarPeak M c (Fin v) b)) c = Fin (p + real_of_int (h - 1) / M)
          \<and> arrayGet (hold (updateBarPeak M c (Fin v) b)) c = Fin (real_of_int (h - 1)))
    \<and> (v < p \<and> h \<le> 0 \<and> p + real_of_int (h - 1) / M \<le> v \<longrightarrow>
            arrayGet (peak (updateBarPeak M c (Fin v) b)) c = Fin v
          \<and> arrayGet (hold (updateBarPeak M c (Fin v) b)) c = Fin 30)
    \<and> (q \<le> w \<longrightarrow>
            energyPeak (updateEnergy (Fin cur) nBars s e) = Fin w
          \<and> energyHold (updateEnergy (Fin cur) nBars s e) = 30)
    \<and> (w < q \<and> 0 < energyHold e \<longrightarrow>
            energyPeak (updateEnergy (Fin cur) nBars s e) = Fin q
          \<and> energyHold (updateEnergy (Fin cur) nBars s e) = energyHold e - 1)
    \<and> (w < q \<and> energyHold e \<le> 0 \<and> 0 < q \<longrightarrow>
            energyPeak (updateEnergy (Fin cur) nBars s e)
              = Fin (q * ((30 + real_of_int (energyHold e)) / 30))
          \<and> energyHold (updateEnergy (Fin cur) nBars s e) = energyHold e - 1)"
proof -
  note bs = updateBarPeak_step[OF c pb hb M, of v]
  have len: "c < length (peak (updateBarPeak M c (Fin v) b))"
    "c < length (hold (updateBarPeak M c (Fin v) b))"
    using bs c by simp_all
  have dec: "p + (real_of_int h - 1) / M \<le> p" if "h \<le> 0"
    using that M by (simp add: field_simps)
  have B1: "arrayGet (peak (updateBarPeak M c (Fin v) b)) c = Fin v
          \<and> arrayGet (hold (updateBarPeak M c (Fin v) b)) c = Fin 30" if "p \<le> v"
  proof (cases "0 < p \<and> real_of_int h - 1 < 0")
    case True
    then have "h \<le> 0" by linarith
    then have "p + (real_of_int h - 1) / M \<le> v" using dec that by linarith
    then show ?thesis using True c bs by (simp add: arrayGet_def len)
  next
    case False
    then show ?thesis using that c bs by (simp add: arrayGet_def len)
  qed
  have B2: "arrayGet (peak (updateBarPeak M c (Fin v) b)) c = Fin p
          \<and> arrayGet (hold (updateBarPeak M c (Fin v) b)) c = Fin (real_of_int (h - 1))"
    if "v < p \<and> 0 < h"
  proof -
    have "\<not> real_of_int h - 1 < 0" "0 < p" "\<not> p \<le> v" using that v by simp_all
    then show ?thesis using c bs by (simp add: arrayGet_def len)
  qed
  have neg: "real_of_int h - 1 < 0" "0 < p" "\<not> p \<le> v" if "v < p \<and> h \<le> 0"
    using that v by simp_all
  have B3: "arrayGet (peak (updateBarPeak M c (Fin v) b)) c = Fin (p + real_of_int (h - 1) / M)
          \<and> arrayGet (hold (updateBarPeak M c (Fin v) b)) c = Fin (real_of_int (h - 1))"
    if "v < p \<and> h \<le> 0 \<and> v < p + real_of_int (h - 1) / M"
  proof -
    have "\<not> p + (real_of_int h - 1) / M \<le> v" using that by simp
    then show ?thesis using neg that c bs by (simp add: arrayGet_def len)
  qed
  have B4: "arrayGet (peak (updateBarPeak M c (Fin v) b)) c = Fin v
          \<and> arrayGet (hold (updateBarPeak M c (Fin v) b)) c = Fin 30"
    if "v < p \<and> h \<le> 0 \<and> p + real_of_int (h - 1) / M \<le> v"
  proof -
    have "p + (real_of_int h - 1) / M \<le> v" using that by simp
    then show ?thesis using neg that c bs by (simp add: arrayGet_def len)
  qed
  have es: "energyPeak (updateEnergy (Fin cur) nBars s e) =
           Fin (if q \<le> w then w else if 0 < energyHold e then q
                else if 0 < q then q * ((30 + real_of_int (energyHold e)) / 30) else q)"
    "energyHold (updateEnergy (Fin cur) nBars s e) =
           (if q \<le> w then 30 else if 0 < energyHold e then energyHold e - 1
                else if 0 < q then energyHold e - 1 else energyHold e)"
    using updateEnergy_step[OF pe nb, of cur s] by (simp_all add: w Let_def)
  have E1: "energyPeak (updateEnergy (Fin cur) nBars s e) = Fin w
          \<and> energyHold (updateEnergy (Fin cur) nBars s e) = 30" if "q \<le> w"
    using that es by simp
  have E2: "energyPeak (updateEnergy (Fin cur) nBars s e) = Fin q
          \<and> energyHold (updateEnergy (Fin cur) nBars s e) = energyHold e - 1"
    if "w < q \<and> 0 < energyHold e"
    using that es by simp
  have E3: "energyPeak (updateEnergy (Fin cur) nBars s e)
              = Fin (q * ((30 + real_of_int (energyHold e)) / 30))
          \<and> energyHold (updateEnergy (Fin cur) nBars s e) = energyHold e - 1"
    if "w < q \<and> energyHold e \<le> 0 \<and> 0 < q"
    using that es by simp
  show ?thesis using B1 B2 B3 B4 E1 E2 E3 by blast
qed

text \<open>A decaying bar and the energy in its holding state.\<close>

theorem peak_tracker_step_witness:
  "arrayGet (peak (updateBarPeak 100 0 (Fin 0) decayingBar)) 0 = Fin (99 / 100)
   \<and> arrayGet (hold (updateBarPeak 100 0 (Fin 0) decayingBar)) 0 = Fin (- 1)
   \<and> energyPeak (updateEnergy (Fin 0) 10 False peakedEnergy) = Fin 1
   \<and> energyHold (updateEnergy (Fin 0) 10 False peakedEnergy) = 29"
  using peak_tracker_step [of 0 decayingBar 1 0 100 0 peakedEnergy 1 10 0 0 False]
  by (simp add: decayingBar_def peakedEnergy_def)

text \<open>
  A bar in the decaying state (peak 1, hold 0, value 0) with a maximum bar height of
  100: its new peak is 0.99, which is the old peak times \<open>(30 + hold) / 30\<close> neither
  for the hold before the frame nor for the hold after it.
\<close>

theorem bar_decay_counterexample:
  "arrayGet (peak (updateBarPeak 100 0 (Fin 0) decayingBar)) 0
     \<noteq> js_mul (arrayGet (peak decayingBar) 0)
          (js_div (js_add (Fin 30) (arrayGet (hold decayingBar) 0)) (Fin 30))
   \<and> arrayGet (peak (updateBarPeak 100 0 (Fin 0) decayingBar)) 0
     \<noteq> js_mul (arrayGet (peak decayingBar) 0)
          (js_div (js_add (Fin 30) (arrayGet (hold (updateBarPeak 100 0 (Fin 0) decayingBar)) 0)) (Fin 30))"
  by (simp add: updateBarPeak_def decayingBar_def arrayGet_def arraySet_def js_gt_def js_ge_def
      js_sub_def Let_def)

subsection \<open>After a peak\<close>

text \<open>
  C5 (amended). A bar on a channel right after a peak \<open>P > 0\<close> was registered (hold 30),
  fed with all-zero byte arrays and a positive maximum bar height: through the following
  30 frames its peak stays \<open>P\<close> while hold counts down from 30 to 0, and its value is 0.
  The peak is lowered for the first time by the 31st frame, and after some larger
  number of frames it is exactly 0.
\<close>

theorem zero_input_hold:
  assumes c: "c < length (peak b)" "c < length (hold b)"
    and p: "peak b ! c = Fin P" and h: "hold b ! c = Fin 30" and P: "0 < P"
    and bins: "0 \<le> binLo b" "binLo b \<le> binHi b" "binHi b + 1 < int n"
    and r: "ratioLo b = Fin r1" "ratioHi b = Fin r2"
    and M: "0 < M" and k: "k \<le> 30"
  shows "arrayGet (peak ((updateBar M (replicate n 0) c ^^ k) b)) c = Fin P
       \<and> arrayGet (hold ((updateBar M (replicate n 0) c ^^ k) b)) c = Fin (30 - real k)
       \<and> arrayGet (barValue ((updateBar M (replicate n 0) c ^^ Suc k) b)) c = Fin 0
       \<and> js_lt (arrayGet (peak ((updateBar M (replicate n 0) c ^^ 31) b)) c) (Fin P)
       \<and> (\<exists>N. 30 < N \<and> arrayGet (peak ((updateBar M (replicate n 0) c ^^ N) b)) c = Fin 0)"
proof -
  note z = zero_frames[OF bins r, where M = M and c = c]
  note hp = bar_hold_phase[OF c p h P M]
  have a: "arrayGet (peak ((updateBar M (replicate n 0) c ^^ k) b)) c = Fin P"
    "arrayGet (hold ((updateBar M (replicate n 0) c ^^ k) b)) c = Fin (30 - real k)"
    using z[where k = k] hp[OF k] c p by (simp_all add: arrayGet_nth)
  have v: "arrayGet (barValue ((updateBar M (replicate n 0) c ^^ Suc k) b)) c = Fin 0"
    using z[where k = k] by (simp add: updateBar_barValue)
  obtain j :: nat where j: "real (j * (j + 1)) / 2 < P * M" "P * M \<le> real ((j + 1) * (j + 2)) / 2"
    using triangular_bracket[of "P * M"] P M by auto
  have "peak ((updateBar M (replicate n 0) c ^^ (31 + j)) b) = (peak b)[c := Fin 0]"
    using z[where k = "31 + j"] bar_zero_phase[OF c p h P M j] by simp
  then have "arrayGet (peak ((updateBar M (replicate n 0) c ^^ (31 + j)) b)) c = Fin 0"
    using c by (simp add: arrayGet_nth)
  moreover have "30 < 31 + j" by simp
  ultimately have e: "\<exists>N. 30 < N \<and> arrayGet (peak ((updateBar M (replicate n 0) c ^^ N) b)) c = Fin 0"
    by blast
  define b' where "b' = (updateBarPeak M c (Fin 0) ^^ 30) b"
  have g: "peak b' = peak b" "hold b' = (hold b)[c := Fin 0]"
    using hp[of 30] by (simp_all add: b'_def)
  have c': "c < length (peak b')" "c < length (hold b')" using c g by simp_all
  have p': "peak b' ! c = Fin P" using g p by simp
  have h': "hold b' ! c = Fin 0" using g c by simp
  have t31: "(31::nat) = Suc 30" by simp
  have e31: "(updateBarPeak M c (Fin 0) ^^ 31) b = updateBarPeak M c (Fin 0) b'"
    unfolding b'_def t31 funpow.simps o_apply ..
  have "peak (updateBarPeak M c (Fin 0) b')
      = (peak b')[c := Fin (if P + (0 - 1) / M \<le> 0 then 0 else P + (0 - 1) / M)]"
    using updateBarPeak_step(1)[OF c' p' h' M, of 0] P by simp
  then have "arrayGet (peak (updateBarPeak M c (Fin 0) b')) c
      = Fin (if P + (0 - 1) / M \<le> 0 then 0 else P + (0 - 1) / M)"
    using c' by (simp add: arrayGet_nth)
  moreover have "(if P + (0 - 1) / M \<le> 0 then 0 else P + (0 - 1) / M) < P"
    using P M by simp
  ultimately have "js_lt (arrayGet (peak ((updateBarPeak M c (Fin 0) ^^ 31) b)) c) (Fin P)"
    unfolding e31 by simp
  then have d: "js_lt (arrayGet (peak ((updateBar M (replicate n 0) c ^^ 31) b)) c) (Fin P)"
    using z[where k = 31] by simp
  show ?thesis using a v d e by simp
qed

text \<open>A peak of 1 on a bar over bins 1 to 2 of 16, with a maximum bar height of 100.\<close>

theorem zero_input_hold_witness:
  "arrayGet (peak ((updateBar 100 (replicate 16 0) 0 ^^ 30) peakedBar)) 0 = Fin 1
   \<and> arrayGet (hold ((updateBar 100 (replicate 16 0) 0 ^^ 30) peakedBar)) 0 = Fin 0
   \<and> arrayGet (barValue ((updateBar 100 (replicate 16 0) 0 ^^ 31) peakedBar)) 0 = Fin 0
   \<and> js_lt (arrayGet (peak ((updateBar 100 (replicate 16 0) 0 ^^ 31) peakedBar)) 0) (Fin 1)
   \<and> (\<exists>N. 30 < N \<and> arrayGet (peak ((updateBar 100 (replicate 16 0) 0 ^^ N) peakedBar)) 0 = Fin 0)"
proof -
  have "(31::nat) = Suc 30" by simp
  then show ?thesis
    using zero_input_hold[of 0 peakedBar 1 16 0 0 100 30] by (simp add: peakedBar_def)
qed

text \<open>After 30 frames of zeros the peak of that bar is still 1, not 0.\<close>

theorem peak_after_30_frames_counterexample:
  "arrayGet (peak ((updateBar 100 (replicate 16 0) 0 ^^ 30) peakedBar)) 0 \<noteq> Fin 0"
proof -
  have "peak ((updateBar 100 (replicate 16 0) 0 ^^ 30) peakedBar) = peak peakedBar"
    using zero_frames[where b = peakedBar and n = 16 and ?r1.0 = 0 and ?r2.0 = 0 and M = 100 and c = 0 and k = 30]
      bar_hold_phase[of 0 peakedBar 1 100 30]
    by (simp add: peakedBar_def)
  then show ?thesis by (simp add: peakedBar_def arrayGet_def)
qed

section \<open>Discrete frequencies\<close>

subsection \<open>Chained bars\<close>





















subsection \<open>The loop from an empty list\<close>




subsection \<open>Coverage\<close>








section \<open>LED geometry\<close>

text \<open>
  C7. The default parameters do not keep the bounds on every canvas. In mode 1 with a
  pixel ratio \<open>dPR\<close> of 1, an analyzer one pixel high gets \<open>spaceV = 2\<close> and no LED at
  all: \<open>ledCount\<close> is \<open>3 / 4 | 0\<close> (or \<open>1 / 4 | 0\<close> when the LEDs are not maximized),
  which is 0, and \<open>ledHeight\<close>, a quotient by \<open>ledCount\<close>, is infinite. In mode 1 with a
  \<open>dPR\<close> of 0.5 the vertical spacing is \<open>3 * 0.5\<close> pixels on an analyzer of any height,
  below the 2 pixels the source means to keep.
\<close>

theorem default_leds_out_of_bounds:
  assumes st: "ready st" "isOctaveBands st" "ledParams st = None" "mode st = 1"
  shows "(dPR st = 1 \<and> analyzerHeight st = 1 \<longrightarrow>
            map_option ledCount (leds (snd (calcLeds st))) = Some (Fin 0)
          \<and> map_option ledHeight (leds (snd (calcLeds st))) = Some PosInf)
       \<and> (dPR st = 1 / 2 \<longrightarrow>
            map_option spaceV (leds (snd (calcLeds st))) = Some (Fin (3 / 2)))"
proof -
  have t: "toInt32 x = 0" if "0 \<le> x" "x < 1" for x
  proof -
    have "\<lfloor>x\<rfloor> = 0" using that by linarith
    then show ?thesis using toInt32_floor[of x] that by simp
  qed
  have row: "ledTable (mode st) = Some (Some (128, 3, 45 / 100))"
    using st(4) by (simp add: ledTable_def)
  have cl: "calcLeds st =
      (let sv = defaultSpaceV (dPR st) (analyzerHeight st) 3;
           h' = real_of_int (analyzerHeight st) + (if maximizeLeds st then sv else 0);
           c = min 128 (toInt32 (h' / (sv * 2)))
       in (None, st\<lparr> leds := Some (ledsOf (barWidth st) h' c sv (45 / 100)) \<rparr>))"
    using st(1-3) row by (simp add: calcLeds_def)
  have a: "map_option ledCount (leds (snd (calcLeds st))) = Some (Fin 0)
          \<and> map_option ledHeight (leds (snd (calcLeds st))) = Some PosInf"
    if "dPR st = 1 \<and> analyzerHeight st = 1"
  proof -
    have sv: "defaultSpaceV (dPR st) (analyzerHeight st) 3 = 2"
      using that by (simp add: defaultSpaceV_def t)
    show ?thesis unfolding cl sv using that by (simp add: Let_def ledsOf_def js_sub_def t)
  qed
  have b: "map_option spaceV (leds (snd (calcLeds st))) = Some (Fin (3 / 2))"
    if "dPR st = 1 / 2"
  proof -
    have "(3 / 2 :: real) \<le> max 2 x" for x by simp
    then have sv: "defaultSpaceV (dPR st) (analyzerHeight st) 3 = 3 / 2"
      unfolding defaultSpaceV_def that by (simp add: min_def)
    show ?thesis unfolding cl sv by (simp add: Let_def ledsOf_def)
  qed
  show ?thesis using a b by blast
qed

text \<open>
  The default analyzer in mode 1 on a canvas one pixel high, and in mode 1 with \<open>loRes\<close>
  (\<open>dPR\<close> is 0.5 and the analyzer height is 135).
\<close>

lemma tiny: "ready tinyCanvasAnalyzer" "isOctaveBands tinyCanvasAnalyzer" "ledParams tinyCanvasAnalyzer = None"
  "mode tinyCanvasAnalyzer = 1" "dPR tinyCanvasAnalyzer = 1" "analyzerHeight tinyCanvasAnalyzer = 1"
  unfolding tinyCanvasAnalyzer_def calcAux_same calcAux_derived dPR_calcAux
  by (simp_all add: calcAux_height_plain defaultAnalyzer_def dPR_def toInt32_def)

lemma loRes: "ready loResAnalyzer" "isOctaveBands loResAnalyzer" "ledParams loResAnalyzer = None"
  "mode loResAnalyzer = 1" "dPR loResAnalyzer = 1 / 2"
  unfolding loResAnalyzer_def calcAux_same calcAux_derived dPR_calcAux
  by (simp_all add: defaultAnalyzer_def dPR_def)

theorem default_leds_failing_inputs:
  "map_option ledCount (leds (snd (calcLeds tinyCanvasAnalyzer))) = Some (Fin 0)
   \<and> map_option ledHeight (leds (snd (calcLeds tinyCanvasAnalyzer))) = Some PosInf
   \<and> map_option spaceV (leds (snd (calcLeds loResAnalyzer))) = Some (Fin (3 / 2))"
  using default_leds_out_of_bounds[OF tiny(1-4)] default_leds_out_of_bounds[OF loRes(1-4)]
  by (simp add: tiny loRes)

end
